theory Spec2Isabelle
  imports Complex_Main
begin

text \<open>
  The image resolution of the report generator \<open>main.py\<close>: the resolvers
  \<open>get_student_image_path\<close> and \<open>get_project_image\<close>, the download
  \<open>download_image_from_storage\<close>, the scaling \<open>resize_image_for_docx\<close>, the file name
  cleaners, and the calls that \<open>create_professional_docx\<close> makes to the blob store. The
  library functions they rest on (\<open>str\<close> methods, \<open>fnmatch\<close>, \<open>unquote\<close>) are modelled
  first, then the program, then the properties.
\<close>

section \<open>Python strings\<close>

text \<open>
  A Python \<open>str\<close> is modelled as a HOL \<open>string\<close>. The model is exact on ASCII text:
  \<open>lower\<close> maps \<open>A..Z\<close> to \<open>a..z\<close> and leaves every other character alone, and
  \<open>is_space\<close> holds for the ASCII characters on which \<open>str.split()\<close> splits.
\<close>

definition lower_char :: "char \<Rightarrow> char" where
  "lower_char c =
     (let n = (of_char c :: nat) in if 65 \<le> n \<and> n \<le> 90 then char_of (n + 32) else c)"

definition lower :: "string \<Rightarrow> string" where
  "lower s = map lower_char s"

definition is_space :: "char \<Rightarrow> bool" where
  "is_space c = (let n = (of_char c :: nat) in (9 \<le> n \<and> n \<le> 13) \<or> (28 \<le> n \<and> n \<le> 32))"

text \<open>\<open>s.startswith(p)\<close>\<close>

fun startswith :: "string \<Rightarrow> string \<Rightarrow> bool" where
  "startswith s [] = True"
| "startswith [] (p # ps) = False"
| "startswith (c # cs) (p # ps) = (c = p \<and> startswith cs ps)"

text \<open>
  \<open>s.replace(old, new)\<close> for a non-empty \<open>old\<close> (the program only replaces constants):
  the occurrences of \<open>old\<close> are replaced from left to right, without overlap.
\<close>

fun replace :: "string \<Rightarrow> string \<Rightarrow> string \<Rightarrow> string" where
  "replace [] old new = []"
| "replace (c # cs) old new =
     (if startswith (c # cs) old then new @ replace (drop (length old - 1) cs) old new
      else c # replace cs old new)"

text \<open>
  \<open>s.split(sep)\<close> for a non-empty separator: the pieces between the occurrences of \<open>sep\<close>,
  found from left to right without overlap. The result is never empty.
\<close>

fun split_on :: "string \<Rightarrow> string \<Rightarrow> string list" where
  "split_on [] sep = [[]]"
| "split_on (c # cs) sep =
     (if startswith (c # cs) sep then [] # split_on (drop (length sep - 1) cs) sep
      else (case split_on cs sep of
              [] \<Rightarrow> [[c]]
            | x # xs \<Rightarrow> (c # x) # xs))"

text \<open>\<open>s.split()\<close>: the maximal runs of non-whitespace characters.\<close>

fun words_from :: "string \<Rightarrow> string \<Rightarrow> string list" where
  "words_from cur [] = (if cur = [] then [] else [cur])"
| "words_from cur (c # cs) =
     (if is_space c then (if cur = [] then words_from [] cs else cur # words_from [] cs)
      else words_from (cur @ [c]) cs)"

definition split_ws :: "string \<Rightarrow> string list" where
  "split_ws s = words_from [] s"

text \<open>\<open>re.sub(r'[^a-z]', '', s)\<close>\<close>

definition is_lower_alpha :: "char \<Rightarrow> bool" where
  "is_lower_alpha c = (let n = (of_char c :: nat) in 97 \<le> n \<and> n \<le> 122)"

definition alpha_only :: "string \<Rightarrow> string" where
  "alpha_only s = filter is_lower_alpha s"

text \<open>\<open>re.sub(r'[^a-zA-Z0-9_.-]', '', s)\<close>\<close>

definition is_filename_char :: "char \<Rightarrow> bool" where
  "is_filename_char c =
     (let n = (of_char c :: nat) in
        (97 \<le> n \<and> n \<le> 122) \<or> (65 \<le> n \<and> n \<le> 90) \<or> (48 \<le> n \<and> n \<le> 57)
        \<or> c = CHR ''_'' \<or> c = CHR ''.'' \<or> c = CHR ''-'')"

section \<open>Shell-style matching (\<open>fnmatch\<close>)\<close>

text \<open>
  \<open>fnmatch.fnmatch(name, pat)\<close> on a POSIX host, where \<open>os.path.normcase\<close> is the identity:
  the pattern is translated to a regular expression that must match the whole name, with
  \<open>*\<close> for any run of characters, \<open>?\<close> for any one character, \<open>[seq]\<close> and \<open>[!seq]\<close> for a
  character set, and every other character for itself. The translation is kept as a list
  of tokens; a character set is kept as its negation flag, its characters and its ranges.
\<close>

datatype glob_token =
    Star
  | AnyChar
  | Lit char
  | CharSet bool "char list" "(char \<times> char) list"

text \<open>
  The end of a bracket expression: an optional \<open>!\<close> and an optional \<open>]\<close> directly after it
  belong to the set; the set ends at the next \<open>]\<close>. \<open>None\<close> when there is no closing
  bracket (the \<open>[\<close> is then an ordinary character).
\<close>

fun find_close :: "string \<Rightarrow> nat \<Rightarrow> nat option" where
  "find_close [] j = None"
| "find_close (c # cs) j = (if c = CHR '']'' then Some j else find_close cs (Suc j))"

definition bracket_end :: "string \<Rightarrow> nat option" where
  "bracket_end cs =
     (let j1 = (if startswith cs ''!'' then 1 else 0);
          j2 = (if startswith (drop j1 cs) '']'' then Suc j1 else j1)
      in find_close (drop j2 cs) j2)"

text \<open>
  The chunks of a set that contains a hyphen. A hyphen is a range operator unless it is
  the first character of the set (the second after \<open>!\<close>) or one of the two characters
  after the previous range operator; \<open>skip\<close> counts the characters that cannot be one.
  A hyphen that ends the set is an ordinary character of the last chunk.
\<close>

fun chunks_from :: "nat \<Rightarrow> string \<Rightarrow> string \<Rightarrow> string list" where
  "chunks_from skip cur [] = [cur]"
| "chunks_from skip cur (c # cs) =
     (if c = CHR ''-'' \<and> skip = 0 then cur # chunks_from 2 [] cs
      else chunks_from (skip - 1) (cur @ [c]) cs)"

fun close_chunks :: "string list \<Rightarrow> string list" where
  "close_chunks [] = []"
| "close_chunks [c] = [c]"
| "close_chunks (c # d # ds) =
     (if ds = [] \<and> d = [] then [c @ ''-''] else c # close_chunks (d # ds))"

text \<open>
  A range whose lower end is above its upper end is empty and is removed, from the last
  range to the first: both ends disappear and the two chunks become one.
\<close>

fun drop_empty_ranges :: "string list \<Rightarrow> string list" where
  "drop_empty_ranges [] = []"
| "drop_empty_ranges (c # rest) =
     (case drop_empty_ranges rest of
        [] \<Rightarrow> [c]
      | d # ds \<Rightarrow>
          (if c \<noteq> [] \<and> d \<noteq> [] \<and> (of_char (last c) :: nat) > of_char (hd d)
           then (butlast c @ tl d) # ds
           else c # d # ds))"

fun chunk_ranges :: "string list \<Rightarrow> (char \<times> char) list" where
  "chunk_ranges (c # d # ds) =
     (if c \<noteq> [] \<and> d \<noteq> [] then (last c, hd d) # chunk_ranges (d # ds)
      else chunk_ranges (d # ds))"
| "chunk_ranges ds = []"

definition set_chunks :: "string \<Rightarrow> string list" where
  "set_chunks stuff =
     (if CHR ''-'' \<in> set stuff
      then drop_empty_ranges
             (close_chunks (chunks_from (if startswith stuff ''!'' then 2 else 1) [] stuff))
      else [stuff])"

text \<open>
  The set is negated when its text starts with \<open>!\<close>. A set left without characters
  matches nothing, a negated one left without characters matches every character.
\<close>

definition char_set :: "string \<Rightarrow> glob_token" where
  "char_set stuff =
     (let chunks = set_chunks stuff
      in if startswith (concat (take 1 chunks)) ''!''
         then CharSet True (tl (concat chunks)) (chunk_ranges chunks)
         else CharSet False (concat chunks) (chunk_ranges chunks))"

fun translate :: "string \<Rightarrow> glob_token list" where
  "translate [] = []"
| "translate (c # cs) =
     (if c = CHR ''*'' then
        (case translate cs of
           Star # ts \<Rightarrow> Star # ts
         | ts \<Rightarrow> Star # ts)
      else if c = CHR ''?'' then AnyChar # translate cs
      else if c = CHR ''['' then
        (case bracket_end cs of
           None \<Rightarrow> Lit c # translate cs
         | Some j \<Rightarrow> char_set (take j cs) # translate (drop (Suc j) cs))
      else Lit c # translate cs)"

definition in_char_set :: "char list \<Rightarrow> (char \<times> char) list \<Rightarrow> char \<Rightarrow> bool" where
  "in_char_set chars ranges c =
     (c \<in> set chars \<or>
      list_ex (\<lambda>(lo, hi). (of_char lo :: nat) \<le> of_char c \<and> (of_char c :: nat) \<le> of_char hi) ranges)"

fun token_matches :: "glob_token \<Rightarrow> char \<Rightarrow> bool" where
  "token_matches Star c = True"
| "token_matches AnyChar c = True"
| "token_matches (Lit a) c = (a = c)"
| "token_matches (CharSet neg chars ranges) c = (neg \<noteq> in_char_set chars ranges c)"

fun glob_match :: "glob_token list \<Rightarrow> string \<Rightarrow> bool" where
  "glob_match [] s = (s = [])"
| "glob_match (Star # ts) [] = glob_match ts []"
| "glob_match (Star # ts) (c # cs) = (glob_match ts (c # cs) \<or> glob_match (Star # ts) cs)"
| "glob_match (t # ts) [] = False"
| "glob_match (t # ts) (c # cs) = (token_matches t c \<and> glob_match ts cs)"

definition fnmatch :: "string \<Rightarrow> string \<Rightarrow> bool" where
  "fnmatch name pat = glob_match (translate pat) name"

section \<open>The blob store\<close>

text \<open>
  The bucket is read-only during a report. \<open>objects\<close> are its blobs, name and bytes, in
  listing order; \<open>faulty\<close> are the paths on which \<open>exists()\<close> or the download raises;
  \<open>listing_down\<close> says that \<open>list_blobs\<close> raises. Every call that reaches the store is
  appended to a log, which is the state threaded through the resolvers.
\<close>

datatype error = StorageError | ZeroDivisionError | UnidentifiedImageError

datatype call = ListBlobs string | GetBlob string

record store =
  objects :: "(string \<times> string) list"
  faulty :: "string list"
  listing_down :: bool

definition list_blobs :: "store \<Rightarrow> string \<Rightarrow> call list \<Rightarrow> (error + string list) \<times> call list" where
  "list_blobs st pfx calls =
     (if listing_down st then (Inl StorageError, calls @ [ListBlobs pfx])
      else (Inr (filter (\<lambda>n. startswith n pfx) (map fst (objects st))), calls @ [ListBlobs pfx]))"

definition download_image_from_storage ::
  "store \<Rightarrow> string \<Rightarrow> call list \<Rightarrow> string option \<times> call list" where
  "download_image_from_storage st image_path calls =
     (if image_path = [] then (None, calls)
      else if image_path \<in> set (faulty st) then (None, calls @ [GetBlob image_path])
      else (map_of (objects st) image_path, calls @ [GetBlob image_path]))"

section \<open>Records read from the database\<close>

text \<open>
  A value read with \<open>d.get(key, default)\<close>: the key can be missing, hold \<open>None\<close>, or hold
  text. Formatting \<open>None\<close> into an f-string gives \<open>None\<close>.
\<close>

datatype field = Missing | Null | Text string

fun get_or :: "field \<Rightarrow> string \<Rightarrow> string option" where
  "get_or Missing d = Some d"
| "get_or Null d = None"
| "get_or (Text s) d = Some s"

fun fstr :: "string option \<Rightarrow> string" where
  "fstr None = ''None''"
| "fstr (Some s) = s"

record student_data =
  s_name :: field
  s_email :: field
  s_role :: field

record project_data =
  p_id :: field
  p_title :: field
  p_imageUrl :: field
  p_students :: "student_data list"

section \<open>File names\<close>


definition clean_filename :: "string option \<Rightarrow> string" where
  "clean_filename filename =
     (case filename of
        None \<Rightarrow> ''unknown''
      | Some f \<Rightarrow> if f = [] then ''unknown'' else filter is_filename_char f)"

section \<open>Student images\<close>

definition student_patterns :: "string \<Rightarrow> string list" where
  "student_patterns student_name =
     (let clean_name = replace (lower student_name) '' '' ''_'';
          name_parts = split_ws student_name;
          first_name = (if name_parts \<noteq> [] then lower (hd name_parts) else []);
          last_name = (if length name_parts > 1 then lower (last name_parts) else [])
      in filter (\<lambda>p. p \<noteq> [])
           [''*'' @ clean_name @ ''*'',
            (if last_name \<noteq> [] then ''*'' @ first_name @ ''_'' @ last_name @ ''*'' else []),
            ''*'' @ first_name @ ''*'',
            (if last_name \<noteq> [] then ''*'' @ first_name @ ''*'' @ last_name @ ''*'' else []),
            (if last_name \<noteq> [] then ''*'' @ last_name @ ''*'' @ first_name @ ''*'' else []),
            ''*'' @ first_name @ ''*'',
            ''*'' @ alpha_only first_name @ ''*'',
            ''*'' @ alpha_only clean_name @ ''*''])"

text \<open>The file name a blob is compared by: \<open>blob.name.lower().split('/')[-1]\<close>.\<close>

definition blob_filename :: "string \<Rightarrow> string" where
  "blob_filename blob_name = last (split_on (lower blob_name) ''/'')"

text \<open>The inner loop, over the blobs, and the outer loop, over the patterns.\<close>

fun first_blob :: "string \<Rightarrow> string list \<Rightarrow> string option" where
  "first_blob pattern [] = None"
| "first_blob pattern (b # bs) =
     (if fnmatch (blob_filename b) pattern then Some b else first_blob pattern bs)"

fun first_match :: "string list \<Rightarrow> string list \<Rightarrow> string option" where
  "first_match [] blobs = None"
| "first_match (p # ps) blobs =
     (case first_blob p blobs of
        Some b \<Rightarrow> Some b
      | None \<Rightarrow> first_match ps blobs)"

definition get_student_image_path ::
  "store \<Rightarrow> string option \<Rightarrow> call list \<Rightarrow> (error + string option) \<times> call list" where
  "get_student_image_path st student_name calls =
     (case student_name of
        None \<Rightarrow> (Inr None, calls)
      | Some n \<Rightarrow>
          if n = [] then (Inr None, calls)
          else (case list_blobs st ''students/'' calls of
                  (Inl e, calls1) \<Rightarrow> (Inl e, calls1)
                | (Inr blobs, calls1) \<Rightarrow> (Inr (first_match (student_patterns n) blobs), calls1)))"

section \<open>Project images\<close>

text \<open>
  \<open>requests.utils.unquote\<close>: every \<open>%\<close> followed by two hexadecimal digits becomes the
  byte they name, any other \<open>%\<close> stays. (The bytes are then read as UTF-8; the model
  keeps the bytes.)
\<close>

definition hex_digit :: "char \<Rightarrow> nat option" where
  "hex_digit c =
     (let n = (of_char c :: nat) in
        if 48 \<le> n \<and> n \<le> 57 then Some (n - 48)
        else if 65 \<le> n \<and> n \<le> 70 then Some (n - 55)
        else if 97 \<le> n \<and> n \<le> 102 then Some (n - 87)
        else None)"

fun unquote :: "string \<Rightarrow> string" where
  "unquote (c # h1 # h2 # cs) =
     (if c = CHR ''%'' then
        (case (hex_digit h1, hex_digit h2) of
           (Some a, Some b) \<Rightarrow> char_of (16 * a + b) # unquote cs
         | _ \<Rightarrow> c # unquote (h1 # h2 # cs))
      else c # unquote (h1 # h2 # cs))"
| "unquote (c # cs) = c # unquote cs"
| "unquote [] = []"

text \<open>The storage path named by an \<open>imageUrl\<close>, after the first decoding.\<close>

definition image_url_path :: "string \<Rightarrow> string" where
  "image_url_path url =
     (let image_path = hd (split_on (last (split_on url ''/o/'')) ''?'')
      in replace (replace image_path ''%2F'' ''/'') ''%20'' '' '')"

text \<open>
  The \<open>imageUrl\<close> branch. The url is text here, so nothing in the branch raises: the
  download catches its own exceptions.
\<close>

definition try_image_url :: "store \<Rightarrow> string \<Rightarrow> call list \<Rightarrow> string option \<times> call list" where
  "try_image_url st url calls =
     (let image_path = image_url_path url
      in case download_image_from_storage st image_path calls of
           (Some image_stream, calls1) \<Rightarrow> (Some image_stream, calls1)
         | (None, calls1) \<Rightarrow>
             (let decoded_path = unquote image_path
              in if decoded_path \<noteq> image_path
                 then download_image_from_storage st decoded_path calls1
                 else (None, calls1)))"

definition project_patterns :: "project_data \<Rightarrow> string list" where
  "project_patterns p =
     (let project_id = fstr (get_or (p_id p) ''unknown'');
          project_title = clean_filename (get_or (p_title p) ''unknown'');
          original_title = fstr (get_or (p_title p) ''unknown'')
      in [''projects/'' @ project_id @ ''.jpg'',
          ''projects/'' @ project_id @ ''.png'',
          ''projects/project_'' @ project_id @ ''.jpg'',
          ''projects/project_'' @ project_id @ ''.png'',
          ''projects/'' @ project_title @ ''.jpg'',
          ''projects/'' @ project_title @ ''.png'',
          ''projects/'' @ original_title @ ''.jpg'',
          ''projects/'' @ original_title @ ''.png'',
          ''projects/*'' @ take 10 project_title @ ''*.jpg'',
          ''projects/*'' @ take 10 project_title @ ''*.png'',
          ''projects/dec cap vale.png'',
          ''projects/IOTbasedRealTimeApp.jpg'',
          ''projects/Scratch.png''])"

text \<open>The blobs of a listing that match a wildcard pattern are downloaded in turn.\<close>

fun try_blobs :: "store \<Rightarrow> string \<Rightarrow> string list \<Rightarrow> call list \<Rightarrow> string option \<times> call list" where
  "try_blobs st pattern [] calls = (None, calls)"
| "try_blobs st pattern (b # bs) calls =
     (if fnmatch b pattern
      then (case download_image_from_storage st b calls of
              (Some image_stream, calls1) \<Rightarrow> (Some image_stream, calls1)
            | (None, calls1) \<Rightarrow> try_blobs st pattern bs calls1)
      else try_blobs st pattern bs calls)"

fun try_patterns ::
  "store \<Rightarrow> string list \<Rightarrow> call list \<Rightarrow> (error + string option) \<times> call list" where
  "try_patterns st [] calls = (Inr None, calls)"
| "try_patterns st (pattern # ps) calls =
     (if CHR ''*'' \<in> set pattern
      then (case list_blobs st ''projects/'' calls of
              (Inl e, calls1) \<Rightarrow> (Inl e, calls1)
            | (Inr blobs, calls1) \<Rightarrow>
                (case try_blobs st pattern blobs calls1 of
                   (Some image_stream, calls2) \<Rightarrow> (Inr (Some image_stream), calls2)
                 | (None, calls2) \<Rightarrow> try_patterns st ps calls2))
      else (case download_image_from_storage st pattern calls of
              (Some image_stream, calls1) \<Rightarrow> (Inr (Some image_stream), calls1)
            | (None, calls1) \<Rightarrow> try_patterns st ps calls1))"

text \<open>\<open>if project_data.get('imageUrl')\<close>: the url, when there is a non-empty one.\<close>

definition image_url_of :: "project_data \<Rightarrow> string option" where
  "image_url_of p =
     (case p_imageUrl p of
        Text url \<Rightarrow> if url = [] then None else Some url
      | _ \<Rightarrow> None)"

text \<open>The part of \<open>get_project_image\<close> after the \<open>imageUrl\<close> branch.\<close>

definition find_by_pattern ::
  "store \<Rightarrow> project_data \<Rightarrow> call list \<Rightarrow> (error + string option) \<times> call list" where
  "find_by_pattern st p calls =
     (case try_patterns st (project_patterns p) calls of
        (Inl e, calls1) \<Rightarrow> (Inl e, calls1)
      | (Inr (Some image_stream), calls1) \<Rightarrow> (Inr (Some image_stream), calls1)
      | (Inr None, calls1) \<Rightarrow>
          (case download_image_from_storage st ''projects/default_project.jpg'' calls1 of
             (r, calls2) \<Rightarrow> (Inr r, calls2)))"

definition get_project_image ::
  "store \<Rightarrow> project_data \<Rightarrow> call list \<Rightarrow> (error + string option) \<times> call list" where
  "get_project_image st p calls =
     (case image_url_of p of
        None \<Rightarrow> find_by_pattern st p calls
      | Some url \<Rightarrow>
          (case try_image_url st url calls of
             (Some image_stream, calls1) \<Rightarrow> (Inr (Some image_stream), calls1)
           | (None, calls1) \<Rightarrow> find_by_pattern st p calls1))"

section \<open>The report\<close>




section \<open>Scaling an image into a box\<close>





section \<open>Notions used to state the properties\<close>

text \<open>What a download of a path gives: nothing for the empty path, for a faulty path and
  for a path that holds no blob.\<close>

definition stored :: "store \<Rightarrow> string \<Rightarrow> string option" where
  "stored st path =
     (if path = [] \<or> path \<in> set (faulty st) then None else map_of (objects st) path)"



text \<open>Deduplication that preserves order: the first occurrence of every element stays.\<close>

fun dedup_from :: "'a list \<Rightarrow> 'a list \<Rightarrow> 'a list" where
  "dedup_from seen [] = []"
| "dedup_from seen (x # xs) =
     (if x \<in> set seen then dedup_from seen xs else x # dedup_from (x # seen) xs)"

definition ordered_dedup :: "'a list \<Rightarrow> 'a list" where
  "ordered_dedup xs = dedup_from [] xs"



section \<open>The pattern matcher\<close>

lemma first_blob_none:
  "\<forall>x\<in>set bs. \<not> fnmatch (blob_filename x) p \<Longrightarrow> first_blob p bs = None"
  by (induction bs) simp_all

lemma first_blob_first:
  "\<forall>x\<in>set bs1. \<not> fnmatch (blob_filename x) p \<Longrightarrow> fnmatch (blob_filename b) p
   \<Longrightarrow> first_blob p (bs1 @ b # bs2) = Some b"
  by (induction bs1) simp_all

lemma first_match_skip:
  "\<forall>q\<in>set ps1. first_blob q blobs = None \<Longrightarrow> first_match (ps1 @ ps) blobs = first_match ps blobs"
  by (induction ps1) simp_all

lemma alice_before_bob:
  "first_match [''*alice*'', ''*bob*''] [''bob.jpg'', ''alice.jpg''] = Some ''alice.jpg''"
  by (simp add: fnmatch_def blob_filename_def lower_def lower_char_def)

text \<open>
  C1. The matcher tries the patterns in their order and, for each pattern, the blobs in
  listing order. When no pattern before \<open>p\<close> matches any blob and \<open>b\<close> is the first blob
  whose file name matches \<open>p\<close>, the result is \<open>b\<close>, whatever the later patterns \<open>ps2\<close> would
  match among the earlier blobs \<open>bs1\<close>. For the patterns \<open>*alice*\<close>, \<open>*bob*\<close> and the listing
  \<open>bob.jpg\<close>, \<open>alice.jpg\<close> the result is \<open>alice.jpg\<close>.
\<close>

theorem first_match_pattern_order:
  assumes "\<forall>q\<in>set ps1. \<forall>x\<in>set (bs1 @ b # bs2). \<not> fnmatch (blob_filename x) q"
    and "\<forall>x\<in>set bs1. \<not> fnmatch (blob_filename x) p"
    and "fnmatch (blob_filename b) p"
  shows "first_match (ps1 @ p # ps2) (bs1 @ b # bs2) = Some b
         \<and> first_match [''*alice*'', ''*bob*''] [''bob.jpg'', ''alice.jpg''] = Some ''alice.jpg''"
proof -
  have "\<forall>q\<in>set ps1. first_blob q (bs1 @ b # bs2) = None"
    using assms(1) by (blast intro: first_blob_none)
  then have "first_match (ps1 @ p # ps2) (bs1 @ b # bs2) = first_match (p # ps2) (bs1 @ b # bs2)"
    by (rule first_match_skip)
  also have "\<dots> = Some b"
    using first_blob_first [OF assms(2) assms(3)] by simp
  finally show ?thesis
    using alice_before_bob by simp
qed

theorem first_match_pattern_order_witness:
  "\<not> fnmatch (blob_filename ''students/bob.jpg'') ''*alice*''
   \<and> fnmatch (blob_filename ''students/Alice.JPG'') ''*alice*''
   \<and> first_match ([''*carol*''] @ ''*alice*'' # [''*bob*''])
        ([''students/bob.jpg''] @ ''students/Alice.JPG'' # [''students/alice2.jpg''])
      = Some ''students/Alice.JPG''"
proof -
  have h1: "\<forall>q\<in>set [''*carol*'']. \<forall>x\<in>set ([''students/bob.jpg''] @ ''students/Alice.JPG'' # [''students/alice2.jpg'']).
      \<not> fnmatch (blob_filename x) q"
    by code_simp
  have h2: "\<forall>x\<in>set [''students/bob.jpg'']. \<not> fnmatch (blob_filename x) ''*alice*''"
    by code_simp
  have h3: "fnmatch (blob_filename ''students/Alice.JPG'') ''*alice*''"
    by code_simp
  from first_match_pattern_order [OF h1 h2 h3, of "[''*bob*'']"]
  have "first_match ([''*carol*''] @ ''*alice*'' # [''*bob*''])
        ([''students/bob.jpg''] @ ''students/Alice.JPG'' # [''students/alice2.jpg''])
      = Some ''students/Alice.JPG''"
    by (rule conjunct1)
  moreover have "\<not> fnmatch (blob_filename ''students/bob.jpg'') ''*alice*''"
    using h2 by simp
  ultimately show ?thesis using h3 by (intro conjI)
qed

section \<open>The filename normalizer\<close>


section \<open>Scaling\<close>










section \<open>The candidate patterns of a student\<close>

lemma first_match_dedup_from:
  "\<forall>q\<in>set seen. first_blob q blobs = None \<Longrightarrow>
   first_match (dedup_from seen ps) blobs = first_match ps blobs"
proof (induction ps arbitrary: seen)
  case Nil
  show ?case by simp
next
  case (Cons x xs)
  show ?case
  proof (cases "x \<in> set seen")
    case True
    then have "first_blob x blobs = None" using Cons.prems by blast
    then show ?thesis using True Cons.IH [OF Cons.prems] by simp
  next
    case False
    show ?thesis
    proof (cases "first_blob x blobs")
      case None
      then have "\<forall>q\<in>set (x # seen). first_blob q blobs = None" using Cons.prems by simp
      then show ?thesis using False None Cons.IH by simp
    next
      case (Some b)
      then show ?thesis using False by simp
    qed
  qed
qed

lemma student_patterns_nonempty: "[] \<notin> set (student_patterns n)"
  by (simp add: student_patterns_def Let_def)

text \<open>
  C4, as stated, fails: the sequence built for \<open>Ali Khan\<close> holds \<open>*ali_khan*\<close> twice and
  \<open>*ali*\<close> three times.
\<close>

theorem student_patterns_not_distinct:
  "\<not> distinct (student_patterns ''Ali Khan'')"
  by code_simp

text \<open>
  C4, amended. The sequence keeps the order of construction and holds no empty pattern;
  it is not deduplicated, and a pattern that occurs again is run again. Running it again
  cannot change the outcome: matching the sequence gives the same blob as matching its
  order-preserving deduplication.
\<close>

theorem student_patterns_rerun_harmless:
  "[] \<notin> set (student_patterns n)
   \<and> first_match (student_patterns n) blobs = first_match (ordered_dedup (student_patterns n)) blobs"
  using first_match_dedup_from [of "[]" blobs "student_patterns n"] student_patterns_nonempty
  by (simp add: ordered_dedup_def)

lemma glob_match_star: "glob_match [Star] s"
  by (induction s) simp_all

lemma fnmatch_two_stars: "fnmatch name ''**''"
  by (simp add: fnmatch_def glob_match_star)

text \<open>
  C5 does not hold of the code. A name of one space passes the guard for empty names, its
  first name is empty, and three of the patterns built from it are \<open>**\<close>, which matches
  every file name: the resolver returns the first blob of the listing.
\<close>

theorem blank_name_matches_every_blob:
  "student_patterns '' '' = [''*_*'', ''**'', ''**'', ''**'', ''**'']
   \<and> (\<forall>name. fnmatch name ''**'')
   \<and> get_student_image_path
        \<lparr>objects = [(''students/sara.jpg'', ''IMG'')], faulty = [], listing_down = False\<rparr>
        (Some '' '') []
      = (Inr (Some ''students/sara.jpg''), [ListBlobs ''students/''])"
proof (intro conjI allI)
  show "student_patterns '' '' = [''*_*'', ''**'', ''**'', ''**'', ''**'']"
    by code_simp
  show "get_student_image_path
        \<lparr>objects = [(''students/sara.jpg'', ''IMG'')], faulty = [], listing_down = False\<rparr>
        (Some '' '') []
      = (Inr (Some ''students/sara.jpg''), [ListBlobs ''students/''])"
    by code_simp
  show "fnmatch name ''**''" for name
    by (rule fnmatch_two_stars)
qed

section \<open>Calls to the store\<close>

lemma download_eq:
  "download_image_from_storage st path calls =
     (stored st path, calls @ (if path = [] then [] else [GetBlob path]))"
  by (simp add: download_image_from_storage_def stored_def)
















section \<open>The image reference of a project\<close>

lemma unquote_nonempty: "s \<noteq> [] \<Longrightarrow> unquote s \<noteq> []"
  by (induction s rule: unquote.induct) (auto split: option.splits)

lemma try_image_url_eq:
  "try_image_url st url calls =
     (let path = image_url_path url;
          calls1 = calls @ (if path = [] then [] else [GetBlob path])
      in case stored st path of
           Some img \<Rightarrow> (Some img, calls1)
         | None \<Rightarrow>
             if unquote path = path then (None, calls1)
             else (stored st (unquote path), calls1 @ [GetBlob (unquote path)]))"
proof (cases "image_url_path url = []")
  case True
  then show ?thesis
    by (simp add: try_image_url_def download_eq Let_def stored_def)
next
  case False
  then have "unquote (image_url_path url) \<noteq> []" by (rule unquote_nonempty)
  then show ?thesis
    using False by (simp add: try_image_url_def download_eq Let_def split: option.splits)
qed

text \<open>
  C7, as stated, fails. The reference \<open>projects%252Fa.jpg\<close> is the path \<open>projects/a.jpg\<close>
  encoded twice. The first pass leaves it as it is, the second pass decodes it once, to
  \<open>projects%2Fa.jpg\<close>, and neither path holds a blob: the blob is not found by its
  reference, and the project gets no image.
\<close>

theorem double_encoded_reference_unresolved:
  "unquote (unquote ''projects%252Fa.jpg'') = ''projects/a.jpg''
   \<and> try_image_url
        \<lparr>objects = [(''projects/a.jpg'', ''IMG'')], faulty = [], listing_down = False\<rparr>
        ''https://host/v0/b/bucket/o/projects%252Fa.jpg?alt=media'' []
      = (None, [GetBlob ''projects%252Fa.jpg'', GetBlob ''projects%2Fa.jpg''])
   \<and> fst (get_project_image
        \<lparr>objects = [(''projects/a.jpg'', ''IMG'')], faulty = [], listing_down = False\<rparr>
        \<lparr>p_id = Text ''p1'', p_title = Text ''Robot'',
           p_imageUrl = Text ''https://host/v0/b/bucket/o/projects%252Fa.jpg?alt=media'',
           p_students = []\<rparr> [])
      = Inr None"
  by code_simp

text \<open>
  C7, amended. For a project with an image reference, the resolver first reverses the
  \<open>%2F\<close> and \<open>%20\<close> encodings of the referenced path and attempts retrieval. Only if that
  fails, and only if a full percent-decoding pass changes the path, it attempts retrieval
  once more, at the decoded path. There is no further attempt: a reference that needs one
  more decoding pass resolves at the second attempt, and otherwise the resolver goes on to
  the candidate patterns.
\<close>

theorem image_url_two_attempts:
  assumes "image_url_of p = Some url" and "path = image_url_path url"
  shows "(stored st path = Some img \<longrightarrow>
            get_project_image st p calls = (Inr (Some img), calls @ [GetBlob path]))
       \<and> (stored st path = None \<and> unquote path \<noteq> path \<and> stored st (unquote path) = Some img \<longrightarrow>
            get_project_image st p calls
              = (Inr (Some img),
                 calls @ (if path = [] then [] else [GetBlob path]) @ [GetBlob (unquote path)]))
       \<and> (stored st path = None \<and> unquote path \<noteq> path \<and> stored st (unquote path) = None \<longrightarrow>
            get_project_image st p calls
              = find_by_pattern st p
                  (calls @ (if path = [] then [] else [GetBlob path]) @ [GetBlob (unquote path)]))
       \<and> (stored st path = None \<and> unquote path = path \<longrightarrow>
            get_project_image st p calls
              = find_by_pattern st p (calls @ (if path = [] then [] else [GetBlob path])))"
proof -
  have ne: "stored st path = Some img \<Longrightarrow> path \<noteq> []"
    by (auto simp add: stored_def)
  show ?thesis
    using assms ne
    by (auto simp add: get_project_image_def try_image_url_eq Let_def)
qed

theorem image_url_two_attempts_witness:
  "get_project_image
     \<lparr>objects = [(''projects/a b.jpg'', ''IMG'')], faulty = [], listing_down = False\<rparr>
     \<lparr>p_id = Text ''p1'', p_title = Text ''Robot'',
        p_imageUrl = Text ''https://host/v0/b/bucket/o/projects%2Fa%20b.jpg?alt=media'',
        p_students = []\<rparr> []
   = (Inr (Some ''IMG''), [GetBlob ''projects/a b.jpg''])
   \<and> get_project_image
     \<lparr>objects = [(''projects/a(b).jpg'', ''IMG'')], faulty = [], listing_down = False\<rparr>
     \<lparr>p_id = Text ''p1'', p_title = Text ''Robot'',
        p_imageUrl = Text ''https://host/v0/b/bucket/o/projects%2Fa%28b%29.jpg?alt=media'',
        p_students = []\<rparr> []
   = (Inr (Some ''IMG''), [GetBlob ''projects/a%28b%29.jpg'', GetBlob ''projects/a(b).jpg''])
   \<and> get_project_image
     \<lparr>objects = [], faulty = [], listing_down = False\<rparr>
     \<lparr>p_id = Text ''p1'', p_title = Text ''Robot'',
        p_imageUrl = Text ''https://host/v0/b/bucket/o/projects%2Fa%28b%29.jpg?alt=media'',
        p_students = []\<rparr> []
   = find_by_pattern
     \<lparr>objects = [], faulty = [], listing_down = False\<rparr>
     \<lparr>p_id = Text ''p1'', p_title = Text ''Robot'',
        p_imageUrl = Text ''https://host/v0/b/bucket/o/projects%2Fa%28b%29.jpg?alt=media'',
        p_students = []\<rparr>
     [GetBlob ''projects/a%28b%29.jpg'', GetBlob ''projects/a(b).jpg'']
   \<and> get_project_image
     \<lparr>objects = [], faulty = [], listing_down = False\<rparr>
     \<lparr>p_id = Text ''p1'', p_title = Text ''Robot'',
        p_imageUrl = Text ''https://host/v0/b/bucket/o/projects%2Fa%20b.jpg?alt=media'',
        p_students = []\<rparr> []
   = find_by_pattern
     \<lparr>objects = [], faulty = [], listing_down = False\<rparr>
     \<lparr>p_id = Text ''p1'', p_title = Text ''Robot'',
        p_imageUrl = Text ''https://host/v0/b/bucket/o/projects%2Fa%20b.jpg?alt=media'',
        p_students = []\<rparr>
     [GetBlob ''projects/a b.jpg'']"
proof -
  define st1 where "st1 = \<lparr>objects = [(''projects/a b.jpg'', ''IMG'')], faulty = [], listing_down = False\<rparr>"
  define st2 where "st2 = \<lparr>objects = [(''projects/a(b).jpg'', ''IMG'')], faulty = [], listing_down = False\<rparr>"
  define st3 where "st3 = \<lparr>objects = [], faulty = [], listing_down = False\<rparr>"
  define p1 where "p1 = \<lparr>p_id = Text ''p1'', p_title = Text ''Robot'',
        p_imageUrl = Text ''https://host/v0/b/bucket/o/projects%2Fa%20b.jpg?alt=media'',
        p_students = []\<rparr>"
  define p2 where "p2 = \<lparr>p_id = Text ''p1'', p_title = Text ''Robot'',
        p_imageUrl = Text ''https://host/v0/b/bucket/o/projects%2Fa%28b%29.jpg?alt=media'',
        p_students = []\<rparr>"
  have u1: "image_url_of p1 = Some ''https://host/v0/b/bucket/o/projects%2Fa%20b.jpg?alt=media''"
    by (simp add: p1_def image_url_of_def)
  have u2: "image_url_of p2 = Some ''https://host/v0/b/bucket/o/projects%2Fa%28b%29.jpg?alt=media''"
    by (simp add: p2_def image_url_of_def)
  have q1: "''projects/a b.jpg''
      = image_url_path ''https://host/v0/b/bucket/o/projects%2Fa%20b.jpg?alt=media''"
    by code_simp
  have q2: "''projects/a%28b%29.jpg''
      = image_url_path ''https://host/v0/b/bucket/o/projects%2Fa%28b%29.jpg?alt=media''"
    by code_simp
  have d1: "unquote ''projects/a b.jpg'' = ''projects/a b.jpg''"
    by code_simp
  have d2: "unquote ''projects/a%28b%29.jpg'' = ''projects/a(b).jpg''"
    by code_simp
  have a: "get_project_image st1 p1 [] = (Inr (Some ''IMG''), [GetBlob ''projects/a b.jpg''])"
  proof -
    have "stored st1 ''projects/a b.jpg'' = Some ''IMG''"
      by (simp add: st1_def stored_def)
    with image_url_two_attempts [OF u1 q1, of st1 "''IMG''" "[]"] show ?thesis
      by simp
  qed
  have b: "get_project_image st2 p2 []
      = (Inr (Some ''IMG''), [GetBlob ''projects/a%28b%29.jpg'', GetBlob ''projects/a(b).jpg''])"
  proof -
    have "stored st2 ''projects/a%28b%29.jpg'' = None
        \<and> unquote ''projects/a%28b%29.jpg'' \<noteq> ''projects/a%28b%29.jpg''
        \<and> stored st2 (unquote ''projects/a%28b%29.jpg'') = Some ''IMG''"
      unfolding d2 by (simp add: st2_def stored_def)
    with image_url_two_attempts [OF u2 q2, of st2 "''IMG''" "[]"]
    have "get_project_image st2 p2 []
        = (Inr (Some ''IMG''),
           [] @ (if ''projects/a%28b%29.jpg'' = [] then [] else [GetBlob ''projects/a%28b%29.jpg''])
              @ [GetBlob (unquote ''projects/a%28b%29.jpg'')])"
      by blast
    then show ?thesis unfolding d2 by simp
  qed
  have c: "get_project_image st3 p2 []
      = find_by_pattern st3 p2 [GetBlob ''projects/a%28b%29.jpg'', GetBlob ''projects/a(b).jpg'']"
  proof -
    have "stored st3 ''projects/a%28b%29.jpg'' = None
        \<and> unquote ''projects/a%28b%29.jpg'' \<noteq> ''projects/a%28b%29.jpg''
        \<and> stored st3 (unquote ''projects/a%28b%29.jpg'') = None"
      unfolding d2 by (simp add: st3_def stored_def)
    with image_url_two_attempts [OF u2 q2, of st3 "''IMG''" "[]"]
    have "get_project_image st3 p2 []
        = find_by_pattern st3 p2
           ([] @ (if ''projects/a%28b%29.jpg'' = [] then [] else [GetBlob ''projects/a%28b%29.jpg''])
              @ [GetBlob (unquote ''projects/a%28b%29.jpg'')])"
      by blast
    then show ?thesis unfolding d2 by simp
  qed
  have d: "get_project_image st3 p1 [] = find_by_pattern st3 p1 [GetBlob ''projects/a b.jpg'']"
  proof -
    have "stored st3 ''projects/a b.jpg'' = None
        \<and> unquote ''projects/a b.jpg'' = ''projects/a b.jpg''"
      unfolding d1 by (simp add: st3_def stored_def)
    with image_url_two_attempts [OF u1 q1, of st3 "''IMG''" "[]"]
    have "get_project_image st3 p1 []
        = find_by_pattern st3 p1
           ([] @ (if ''projects/a b.jpg'' = [] then [] else [GetBlob ''projects/a b.jpg'']))"
      by blast
    then show ?thesis by simp
  qed
  from a b c d show ?thesis
    by (simp only: st1_def st2_def st3_def p1_def p2_def)
qed

section \<open>The default asset\<close>






section \<open>What a pattern is compared with\<close>

























end
